theory Spec2Isabelle
  imports Main
begin

section \<open>Dynamic MCP demo server: the registry and its read-only handlers\<close>

text \<open>
  The program is one Python module, \<^verbatim>\<open>app/app.py\<close>: a dictionary \<^verbatim>\<open>MCP_CONFIGS\<close>
  from endpoint names to configurations, and six FastAPI handlers that read it.

  Python's \<^verbatim>\<open>str\<close> is modelled by \<open>string\<close>, holding the UTF-8 encoding of the text:
  the encoding is injective and commutes with concatenation, and the handlers only compare,
  concatenate and join strings. The non-ASCII literals of the source (descriptions and the
  fixed parts of the error messages, which are Chinese) therefore appear as the bytes of
  their UTF-8 encoding, \<open>CHR 0x..\<close>; the apostrophe is written \<open>CHR 0x27\<close>.
\<close>

subsection \<open>Data model\<close>

text \<open>
  \<^verbatim>\<open>Dict[str, Any]\<close> values (the input schemas) and the plain dictionaries that
  \<^verbatim>\<open>root\<close> and \<^verbatim>\<open>list_all_endpoints\<close> return are JSON-like trees. A dictionary is an
  association list in insertion order.
\<close>

datatype json =
    JNull
  | JBool bool
  | JInt int
  | JStr string
  | JArr "json list"
  | JObj "(string \<times> json) list"

text \<open>The pydantic models \<^verbatim>\<open>Tool\<close>, \<^verbatim>\<open>ServerInfo\<close> and \<^verbatim>\<open>MCPConfig\<close>.\<close>

record Tool =
  name :: string
  description :: string
  inputSchema :: "(string \<times> json) list"

record ServerInfo =
  name :: string
  version :: string
  description :: "string option"

record MCPConfig =
  server :: ServerInfo
  tools :: "Tool list"

type_synonym registry = "(string \<times> MCPConfig) list"

text \<open>
  What a handler can raise: the \<^verbatim>\<open>HTTPException(status_code, detail)\<close> it raises itself,
  and the \<^verbatim>\<open>KeyError\<close> of a dictionary subscript.
\<close>

datatype error =
    HTTPException (status_code: int) (detail: string)
  | KeyError string

subsection \<open>The Python primitives the handlers use\<close>

text \<open>\<^verbatim>\<open>d.keys()\<close>, \<^verbatim>\<open>k in d\<close> and \<^verbatim>\<open>d[k]\<close> on a dictionary.\<close>

definition dict_keys :: "('k \<times> 'v) list \<Rightarrow> 'k list" where
  "dict_keys d = map fst d"

definition dict_contains :: "('k \<times> 'v) list \<Rightarrow> 'k \<Rightarrow> bool" where
  "dict_contains d k = (k \<in> set (dict_keys d))"

definition dict_getitem :: "(string \<times> 'v) list \<Rightarrow> string \<Rightarrow> error + 'v" where
  "dict_getitem d k = (case map_of d k of None \<Rightarrow> Inl (KeyError k) | Some v \<Rightarrow> Inr v)"

text \<open>\<^verbatim>\<open>sep.join(xs)\<close>.\<close>

fun str_join :: "string \<Rightarrow> string list \<Rightarrow> string" where
  "str_join sep [] = []"
| "str_join sep [x] = x"
| "str_join sep (x # y # ys) = x @ sep @ str_join sep (y # ys)"

text \<open>Reading a key of a JSON object.\<close>

fun json_get :: "json \<Rightarrow> string \<Rightarrow> json option" where
  "json_get (JObj kvs) k = map_of kvs k"
| "json_get _ k = None"

subsection \<open>The registry \<^verbatim>\<open>MCP_CONFIGS\<close>\<close>

text \<open>
  The dictionary literal of the source, entry by entry and in its order; each tool and each
  configuration is given a name of its own (\<open>get_weather_tool\<close>, \<open>weather_config\<close>) so
  that the literal stays readable.
\<close>

definition get_weather_tool :: Tool where
  "get_weather_tool = \<lparr>
     Tool.name = ''get_weather'',
     Tool.description =
       [CHR 0xE8, CHR 0x8E, CHR 0xB7, CHR 0xE5, CHR 0x8F, CHR 0x96, CHR 0xE6, CHR 0x8C,
        CHR 0x87, CHR 0xE5, CHR 0xAE, CHR 0x9A, CHR 0xE5, CHR 0x9F, CHR 0x8E, CHR 0xE5,
        CHR 0xB8, CHR 0x82, CHR 0xE7, CHR 0x9A, CHR 0x84, CHR 0xE5, CHR 0xA4, CHR 0xA9,
        CHR 0xE6, CHR 0xB0, CHR 0x94, CHR 0xE4, CHR 0xBF, CHR 0xA1, CHR 0xE6, CHR 0x81,
        CHR 0xAF],
     inputSchema = [
       (''type'', JStr ''object''),
       (''properties'', JObj [
         (''city'', JObj [
           (''type'', JStr ''string''),
           (''description'', JStr [CHR 0xE8, CHR 0xA6, CHR 0x81, CHR 0xE6, CHR 0x9F, CHR 0xA5, CHR 0xE8,
              CHR 0xAF, CHR 0xA2, CHR 0xE5, CHR 0xA4, CHR 0xA9, CHR 0xE6, CHR 0xB0,
              CHR 0x94, CHR 0xE7, CHR 0x9A, CHR 0x84, CHR 0xE5, CHR 0x9F, CHR 0x8E,
              CHR 0xE5, CHR 0xB8, CHR 0x82, CHR 0xE5, CHR 0x90, CHR 0x8D, CHR 0xE7,
              CHR 0xA7, CHR 0xB0])]),
         (''unit'', JObj [
           (''type'', JStr ''string''),
           (''enum'', JArr [JStr ''celsius'', JStr ''fahrenheit'']),
           (''description'', JStr [CHR 0xE6, CHR 0xB8, CHR 0xA9, CHR 0xE5, CHR 0xBA, CHR 0xA6, CHR 0xE5,
              CHR 0x8D, CHR 0x95, CHR 0xE4, CHR 0xBD, CHR 0x8D]),
           (''default'', JStr ''celsius'')])]),
       (''required'', JArr [JStr ''city''])]\<rparr>"

definition get_forecast_tool :: Tool where
  "get_forecast_tool = \<lparr>
     Tool.name = ''get_forecast'',
     Tool.description =
       [CHR 0xE8, CHR 0x8E, CHR 0xB7, CHR 0xE5, CHR 0x8F, CHR 0x96, CHR 0xE6, CHR 0x8C,
        CHR 0x87, CHR 0xE5, CHR 0xAE, CHR 0x9A, CHR 0xE5, CHR 0x9F, CHR 0x8E, CHR 0xE5,
        CHR 0xB8, CHR 0x82, CHR 0xE7, CHR 0x9A, CHR 0x84, CHR 0xE5, CHR 0xA4, CHR 0xA9,
        CHR 0xE6, CHR 0xB0, CHR 0x94, CHR 0xE9, CHR 0xA2, CHR 0x84, CHR 0xE6, CHR 0x8A,
        CHR 0xA5],
     inputSchema = [
       (''type'', JStr ''object''),
       (''properties'', JObj [
         (''city'', JObj [
           (''type'', JStr ''string''),
           (''description'', JStr [CHR 0xE8, CHR 0xA6, CHR 0x81, CHR 0xE6, CHR 0x9F, CHR 0xA5, CHR 0xE8,
              CHR 0xAF, CHR 0xA2, CHR 0xE5, CHR 0xA4, CHR 0xA9, CHR 0xE6, CHR 0xB0,
              CHR 0x94, CHR 0xE9, CHR 0xA2, CHR 0x84, CHR 0xE6, CHR 0x8A, CHR 0xA5,
              CHR 0xE7, CHR 0x9A, CHR 0x84, CHR 0xE5, CHR 0x9F, CHR 0x8E, CHR 0xE5,
              CHR 0xB8, CHR 0x82, CHR 0xE5, CHR 0x90, CHR 0x8D, CHR 0xE7, CHR 0xA7,
              CHR 0xB0])]),
         (''days'', JObj [
           (''type'', JStr ''integer''),
           (''description'', JStr ([CHR 0xE9, CHR 0xA2, CHR 0x84, CHR 0xE6, CHR 0x8A, CHR 0xA5, CHR 0xE5,
              CHR 0xA4, CHR 0xA9, CHR 0xE6, CHR 0x95, CHR 0xB0, CHR 0xEF, CHR 0xBC,
              CHR 0x88] @ ''1-7'' @ [CHR 0xE5, CHR 0xA4, CHR 0xA9, CHR 0xEF, CHR 0xBC,
              CHR 0x89])),
           (''minimum'', JInt 1),
           (''maximum'', JInt 7),
           (''default'', JInt 3)])]),
       (''required'', JArr [JStr ''city''])]\<rparr>"

definition weather_config :: MCPConfig where
  "weather_config = \<lparr>
     server = \<lparr>
       ServerInfo.name = ''Weather MCP Server'',
       version = ''1.0.0'',
       ServerInfo.description = Some
         [CHR 0xE6, CHR 0x8F, CHR 0x90, CHR 0xE4, CHR 0xBE, CHR 0x9B, CHR 0xE5, CHR 0xA4,
          CHR 0xA9, CHR 0xE6, CHR 0xB0, CHR 0x94, CHR 0xE6, CHR 0x9F, CHR 0xA5, CHR 0xE8,
          CHR 0xAF, CHR 0xA2, CHR 0xE7, CHR 0x9B, CHR 0xB8, CHR 0xE5, CHR 0x85, CHR 0xB3,
          CHR 0xE7, CHR 0x9A, CHR 0x84, CHR 0xE5, CHR 0xB7, CHR 0xA5, CHR 0xE5, CHR 0x85,
          CHR 0xB7]\<rparr>,
     tools = [get_weather_tool, get_forecast_tool]\<rparr>"

definition query_database_tool :: Tool where
  "query_database_tool = \<lparr>
     Tool.name = ''query_database'',
     Tool.description =
       ([CHR 0xE6, CHR 0x89, CHR 0xA7, CHR 0xE8, CHR 0xA1, CHR 0x8C] @ ''SQL'' @ [CHR 0xE6,
        CHR 0x9F, CHR 0xA5, CHR 0xE8, CHR 0xAF, CHR 0xA2]),
     inputSchema = [
       (''type'', JStr ''object''),
       (''properties'', JObj [
         (''sql'', JObj [
           (''type'', JStr ''string''),
           (''description'', JStr ([CHR 0xE8, CHR 0xA6, CHR 0x81, CHR 0xE6, CHR 0x89, CHR 0xA7, CHR 0xE8,
              CHR 0xA1, CHR 0x8C, CHR 0xE7, CHR 0x9A, CHR 0x84] @ ''SQL'' @ [CHR 0xE6,
              CHR 0x9F, CHR 0xA5, CHR 0xE8, CHR 0xAF, CHR 0xA2, CHR 0xE8, CHR 0xAF,
              CHR 0xAD, CHR 0xE5, CHR 0x8F, CHR 0xA5]))]),
         (''database'', JObj [
           (''type'', JStr ''string''),
           (''description'', JStr [CHR 0xE6, CHR 0x95, CHR 0xB0, CHR 0xE6, CHR 0x8D, CHR 0xAE, CHR 0xE5,
              CHR 0xBA, CHR 0x93, CHR 0xE5, CHR 0x90, CHR 0x8D, CHR 0xE7, CHR 0xA7,
              CHR 0xB0]),
           (''default'', JStr ''default'')])]),
       (''required'', JArr [JStr ''sql''])]\<rparr>"

definition execute_command_tool :: Tool where
  "execute_command_tool = \<lparr>
     Tool.name = ''execute_command'',
     Tool.description =
       ([CHR 0xE6, CHR 0x89, CHR 0xA7, CHR 0xE8, CHR 0xA1, CHR 0x8C, CHR 0xE6, CHR 0x95,
        CHR 0xB0, CHR 0xE6, CHR 0x8D, CHR 0xAE, CHR 0xE5, CHR 0xBA, CHR 0x93, CHR 0xE5,
        CHR 0x91, CHR 0xBD, CHR 0xE4, CHR 0xBB, CHR 0xA4, CHR 0xEF, CHR 0xBC,
        CHR 0x88] @ ''INSERT, UPDATE, DELETE'' @ [CHR 0xEF, CHR 0xBC, CHR 0x89]),
     inputSchema = [
       (''type'', JStr ''object''),
       (''properties'', JObj [
         (''command'', JObj [
           (''type'', JStr ''string''),
           (''description'', JStr ([CHR 0xE8, CHR 0xA6, CHR 0x81, CHR 0xE6, CHR 0x89, CHR 0xA7, CHR 0xE8,
              CHR 0xA1, CHR 0x8C, CHR 0xE7, CHR 0x9A, CHR 0x84] @ ''SQL'' @ [CHR 0xE5,
              CHR 0x91, CHR 0xBD, CHR 0xE4, CHR 0xBB, CHR 0xA4]))]),
         (''database'', JObj [
           (''type'', JStr ''string''),
           (''description'', JStr [CHR 0xE6, CHR 0x95, CHR 0xB0, CHR 0xE6, CHR 0x8D, CHR 0xAE, CHR 0xE5,
              CHR 0xBA, CHR 0x93, CHR 0xE5, CHR 0x90, CHR 0x8D, CHR 0xE7, CHR 0xA7,
              CHR 0xB0]),
           (''default'', JStr ''default'')])]),
       (''required'', JArr [JStr ''command''])]\<rparr>"

definition list_tables_tool :: Tool where
  "list_tables_tool = \<lparr>
     Tool.name = ''list_tables'',
     Tool.description =
       [CHR 0xE5, CHR 0x88, CHR 0x97, CHR 0xE5, CHR 0x87, CHR 0xBA, CHR 0xE6, CHR 0x95,
        CHR 0xB0, CHR 0xE6, CHR 0x8D, CHR 0xAE, CHR 0xE5, CHR 0xBA, CHR 0x93, CHR 0xE4,
        CHR 0xB8, CHR 0xAD, CHR 0xE7, CHR 0x9A, CHR 0x84, CHR 0xE6, CHR 0x89, CHR 0x80,
        CHR 0xE6, CHR 0x9C, CHR 0x89, CHR 0xE8, CHR 0xA1, CHR 0xA8],
     inputSchema = [
       (''type'', JStr ''object''),
       (''properties'', JObj [
         (''database'', JObj [
           (''type'', JStr ''string''),
           (''description'', JStr [CHR 0xE6, CHR 0x95, CHR 0xB0, CHR 0xE6, CHR 0x8D, CHR 0xAE, CHR 0xE5,
              CHR 0xBA, CHR 0x93, CHR 0xE5, CHR 0x90, CHR 0x8D, CHR 0xE7, CHR 0xA7,
              CHR 0xB0]),
           (''default'', JStr ''default'')])]),
       (''required'', JArr [])]\<rparr>"

definition database_config :: MCPConfig where
  "database_config = \<lparr>
     server = \<lparr>
       ServerInfo.name = ''Database MCP Server'',
       version = ''1.0.0'',
       ServerInfo.description = Some
         [CHR 0xE6, CHR 0x8F, CHR 0x90, CHR 0xE4, CHR 0xBE, CHR 0x9B, CHR 0xE6, CHR 0x95,
          CHR 0xB0, CHR 0xE6, CHR 0x8D, CHR 0xAE, CHR 0xE5, CHR 0xBA, CHR 0x93, CHR 0xE6,
          CHR 0x93, CHR 0x8D, CHR 0xE4, CHR 0xBD, CHR 0x9C, CHR 0xE7, CHR 0x9B, CHR 0xB8,
          CHR 0xE5, CHR 0x85, CHR 0xB3, CHR 0xE7, CHR 0x9A, CHR 0x84, CHR 0xE5, CHR 0xB7,
          CHR 0xA5, CHR 0xE5, CHR 0x85, CHR 0xB7]\<rparr>,
     tools = [query_database_tool, execute_command_tool, list_tables_tool]\<rparr>"

definition read_file_tool :: Tool where
  "read_file_tool = \<lparr>
     Tool.name = ''read_file'',
     Tool.description =
       [CHR 0xE8, CHR 0xAF, CHR 0xBB, CHR 0xE5, CHR 0x8F, CHR 0x96, CHR 0xE6, CHR 0x96,
        CHR 0x87, CHR 0xE4, CHR 0xBB, CHR 0xB6, CHR 0xE5, CHR 0x86, CHR 0x85, CHR 0xE5,
        CHR 0xAE, CHR 0xB9],
     inputSchema = [
       (''type'', JStr ''object''),
       (''properties'', JObj [
         (''path'', JObj [
           (''type'', JStr ''string''),
           (''description'', JStr [CHR 0xE8, CHR 0xA6, CHR 0x81, CHR 0xE8, CHR 0xAF, CHR 0xBB, CHR 0xE5,
              CHR 0x8F, CHR 0x96, CHR 0xE7, CHR 0x9A, CHR 0x84, CHR 0xE6, CHR 0x96,
              CHR 0x87, CHR 0xE4, CHR 0xBB, CHR 0xB6, CHR 0xE8, CHR 0xB7, CHR 0xAF,
              CHR 0xE5, CHR 0xBE, CHR 0x84])]),
         (''encoding'', JObj [
           (''type'', JStr ''string''),
           (''description'', JStr [CHR 0xE6, CHR 0x96, CHR 0x87, CHR 0xE4, CHR 0xBB, CHR 0xB6, CHR 0xE7,
              CHR 0xBC, CHR 0x96, CHR 0xE7, CHR 0xA0, CHR 0x81]),
           (''default'', JStr ''utf-8'')])]),
       (''required'', JArr [JStr ''path''])]\<rparr>"

definition write_file_tool :: Tool where
  "write_file_tool = \<lparr>
     Tool.name = ''write_file'',
     Tool.description =
       [CHR 0xE5, CHR 0x86, CHR 0x99, CHR 0xE5, CHR 0x85, CHR 0xA5, CHR 0xE6, CHR 0x96,
        CHR 0x87, CHR 0xE4, CHR 0xBB, CHR 0xB6, CHR 0xE5, CHR 0x86, CHR 0x85, CHR 0xE5,
        CHR 0xAE, CHR 0xB9],
     inputSchema = [
       (''type'', JStr ''object''),
       (''properties'', JObj [
         (''path'', JObj [
           (''type'', JStr ''string''),
           (''description'', JStr [CHR 0xE8, CHR 0xA6, CHR 0x81, CHR 0xE5, CHR 0x86, CHR 0x99, CHR 0xE5,
              CHR 0x85, CHR 0xA5, CHR 0xE7, CHR 0x9A, CHR 0x84, CHR 0xE6, CHR 0x96,
              CHR 0x87, CHR 0xE4, CHR 0xBB, CHR 0xB6, CHR 0xE8, CHR 0xB7, CHR 0xAF,
              CHR 0xE5, CHR 0xBE, CHR 0x84])]),
         (''content'', JObj [
           (''type'', JStr ''string''),
           (''description'', JStr [CHR 0xE8, CHR 0xA6, CHR 0x81, CHR 0xE5, CHR 0x86, CHR 0x99, CHR 0xE5,
              CHR 0x85, CHR 0xA5, CHR 0xE7, CHR 0x9A, CHR 0x84, CHR 0xE6, CHR 0x96,
              CHR 0x87, CHR 0xE4, CHR 0xBB, CHR 0xB6, CHR 0xE5, CHR 0x86, CHR 0x85,
              CHR 0xE5, CHR 0xAE, CHR 0xB9])]),
         (''encoding'', JObj [
           (''type'', JStr ''string''),
           (''description'', JStr [CHR 0xE6, CHR 0x96, CHR 0x87, CHR 0xE4, CHR 0xBB, CHR 0xB6, CHR 0xE7,
              CHR 0xBC, CHR 0x96, CHR 0xE7, CHR 0xA0, CHR 0x81]),
           (''default'', JStr ''utf-8'')])]),
       (''required'', JArr [JStr ''path'', JStr ''content''])]\<rparr>"

definition list_directory_tool :: Tool where
  "list_directory_tool = \<lparr>
     Tool.name = ''list_directory'',
     Tool.description =
       [CHR 0xE5, CHR 0x88, CHR 0x97, CHR 0xE5, CHR 0x87, CHR 0xBA, CHR 0xE7, CHR 0x9B,
        CHR 0xAE, CHR 0xE5, CHR 0xBD, CHR 0x95, CHR 0xE5, CHR 0x86, CHR 0x85, CHR 0xE5,
        CHR 0xAE, CHR 0xB9],
     inputSchema = [
       (''type'', JStr ''object''),
       (''properties'', JObj [
         (''path'', JObj [
           (''type'', JStr ''string''),
           (''description'', JStr [CHR 0xE8, CHR 0xA6, CHR 0x81, CHR 0xE5, CHR 0x88, CHR 0x97, CHR 0xE5,
              CHR 0x87, CHR 0xBA, CHR 0xE7, CHR 0x9A, CHR 0x84, CHR 0xE7, CHR 0x9B,
              CHR 0xAE, CHR 0xE5, CHR 0xBD, CHR 0x95, CHR 0xE8, CHR 0xB7, CHR 0xAF,
              CHR 0xE5, CHR 0xBE, CHR 0x84]),
           (''default'', JStr ''.'')]),
         (''recursive'', JObj [
           (''type'', JStr ''boolean''),
           (''description'', JStr [CHR 0xE6, CHR 0x98, CHR 0xAF, CHR 0xE5, CHR 0x90, CHR 0xA6, CHR 0xE9,
              CHR 0x80, CHR 0x92, CHR 0xE5, CHR 0xBD, CHR 0x92, CHR 0xE5, CHR 0x88,
              CHR 0x97, CHR 0xE5, CHR 0x87, CHR 0xBA, CHR 0xE5, CHR 0xAD, CHR 0x90,
              CHR 0xE7, CHR 0x9B, CHR 0xAE, CHR 0xE5, CHR 0xBD, CHR 0x95]),
           (''default'', JBool False)])]),
       (''required'', JArr [])]\<rparr>"

definition file_config :: MCPConfig where
  "file_config = \<lparr>
     server = \<lparr>
       ServerInfo.name = ''File System MCP Server'',
       version = ''1.0.0'',
       ServerInfo.description = Some
         [CHR 0xE6, CHR 0x8F, CHR 0x90, CHR 0xE4, CHR 0xBE, CHR 0x9B, CHR 0xE6, CHR 0x96,
          CHR 0x87, CHR 0xE4, CHR 0xBB, CHR 0xB6, CHR 0xE7, CHR 0xB3, CHR 0xBB, CHR 0xE7,
          CHR 0xBB, CHR 0x9F, CHR 0xE6, CHR 0x93, CHR 0x8D, CHR 0xE4, CHR 0xBD, CHR 0x9C,
          CHR 0xE7, CHR 0x9B, CHR 0xB8, CHR 0xE5, CHR 0x85, CHR 0xB3, CHR 0xE7, CHR 0x9A,
          CHR 0x84, CHR 0xE5, CHR 0xB7, CHR 0xA5, CHR 0xE5, CHR 0x85, CHR 0xB7]\<rparr>,
     tools = [read_file_tool, write_file_tool, list_directory_tool]\<rparr>"

definition http_get_tool :: Tool where
  "http_get_tool = \<lparr>
     Tool.name = ''http_get'',
     Tool.description =
       ([CHR 0xE5, CHR 0x8F, CHR 0x91, CHR 0xE9, CHR 0x80,
        CHR 0x81] @ ''HTTP GET'' @ [CHR 0xE8, CHR 0xAF, CHR 0xB7, CHR 0xE6, CHR 0xB1,
        CHR 0x82]),
     inputSchema = [
       (''type'', JStr ''object''),
       (''properties'', JObj [
         (''url'', JObj [
           (''type'', JStr ''string''),
           (''description'', JStr ([CHR 0xE8, CHR 0xAF, CHR 0xB7, CHR 0xE6, CHR 0xB1, CHR 0x82, CHR 0xE7,
              CHR 0x9A, CHR 0x84] @ ''URL''))]),
         (''headers'', JObj [
           (''type'', JStr ''object''),
           (''description'', JStr (''HTTP'' @ [CHR 0xE8, CHR 0xAF, CHR 0xB7, CHR 0xE6, CHR 0xB1, CHR 0x82,
              CHR 0xE5, CHR 0xA4, CHR 0xB4])),
           (''additionalProperties'', JObj [
             (''type'', JStr ''string'')])])]),
       (''required'', JArr [JStr ''url''])]\<rparr>"

definition http_post_tool :: Tool where
  "http_post_tool = \<lparr>
     Tool.name = ''http_post'',
     Tool.description =
       ([CHR 0xE5, CHR 0x8F, CHR 0x91, CHR 0xE9, CHR 0x80,
        CHR 0x81] @ ''HTTP POST'' @ [CHR 0xE8, CHR 0xAF, CHR 0xB7, CHR 0xE6, CHR 0xB1,
        CHR 0x82]),
     inputSchema = [
       (''type'', JStr ''object''),
       (''properties'', JObj [
         (''url'', JObj [
           (''type'', JStr ''string''),
           (''description'', JStr ([CHR 0xE8, CHR 0xAF, CHR 0xB7, CHR 0xE6, CHR 0xB1, CHR 0x82, CHR 0xE7,
              CHR 0x9A, CHR 0x84] @ ''URL''))]),
         (''body'', JObj [
           (''type'', JStr ''object''),
           (''description'', JStr ([CHR 0xE8, CHR 0xAF, CHR 0xB7, CHR 0xE6, CHR 0xB1, CHR 0x82, CHR 0xE4,
              CHR 0xBD, CHR 0x93, CHR 0xEF, CHR 0xBC, CHR 0x88] @ ''JSON'' @ [CHR 0xE6,
              CHR 0xA0, CHR 0xBC, CHR 0xE5, CHR 0xBC, CHR 0x8F, CHR 0xEF, CHR 0xBC,
              CHR 0x89]))]),
         (''headers'', JObj [
           (''type'', JStr ''object''),
           (''description'', JStr (''HTTP'' @ [CHR 0xE8, CHR 0xAF, CHR 0xB7, CHR 0xE6, CHR 0xB1, CHR 0x82,
              CHR 0xE5, CHR 0xA4, CHR 0xB4])),
           (''additionalProperties'', JObj [
             (''type'', JStr ''string'')])])]),
       (''required'', JArr [JStr ''url'', JStr ''body''])]\<rparr>"

definition api_config :: MCPConfig where
  "api_config = \<lparr>
     server = \<lparr>
       ServerInfo.name = ''API Client MCP Server'',
       version = ''1.0.0'',
       ServerInfo.description = Some
         ([CHR 0xE6, CHR 0x8F, CHR 0x90, CHR 0xE4, CHR 0xBE,
          CHR 0x9B] @ ''HTTP API'' @ [CHR 0xE8, CHR 0xB0, CHR 0x83, CHR 0xE7, CHR 0x94,
          CHR 0xA8, CHR 0xE7, CHR 0x9B, CHR 0xB8, CHR 0xE5, CHR 0x85, CHR 0xB3, CHR 0xE7,
          CHR 0x9A, CHR 0x84, CHR 0xE5, CHR 0xB7, CHR 0xA5, CHR 0xE5, CHR 0x85, CHR 0xB7])\<rparr>,
     tools = [http_get_tool, http_post_tool]\<rparr>"

definition MCP_CONFIGS :: "(string \<times> MCPConfig) list" where
  "MCP_CONFIGS = [
     (''weather'', weather_config),
     (''database'', database_config),
     (''file'', file_config),
     (''api'', api_config)]"

subsection \<open>The handlers\<close>

text \<open>
  The two f-strings of the 404 messages:
  the first names the unknown endpoint in apostrophes and ends with the available
  endpoints, the second names the unknown tool and its endpoint in apostrophes and ends
  with the available tools. The fixed Chinese words between the holes are given by their
  bytes, in the order of the source.
\<close>

definition endpoint_detail :: "string \<Rightarrow> string \<Rightarrow> string" where
  "endpoint_detail endpoint available =
     ''MCP'' @ [CHR 0xE7, CHR 0xAB, CHR 0xAF, CHR 0xE7, CHR 0x82,
      CHR 0xB9] @ '' '' @ [CHR 0x27]
     @ endpoint @
     [CHR 0x27] @ '' '' @ [CHR 0xE4, CHR 0xB8, CHR 0x8D, CHR 0xE5, CHR 0xAD, CHR 0x98,
      CHR 0xE5, CHR 0x9C, CHR 0xA8, CHR 0xE3, CHR 0x80, CHR 0x82, CHR 0xE5, CHR 0x8F,
      CHR 0xAF, CHR 0xE7, CHR 0x94, CHR 0xA8, CHR 0xE7, CHR 0x9A, CHR 0x84, CHR 0xE7,
      CHR 0xAB, CHR 0xAF, CHR 0xE7, CHR 0x82, CHR 0xB9] @ '': ''
     @ available"

definition tool_detail :: "string \<Rightarrow> string \<Rightarrow> string \<Rightarrow> string" where
  "tool_detail tool_name endpoint available_tools =
     [CHR 0xE5, CHR 0xB7, CHR 0xA5, CHR 0xE5, CHR 0x85, CHR 0xB7] @ '' '' @ [CHR 0x27]
     @ tool_name @
     [CHR 0x27] @ '' '' @ [CHR 0xE5, CHR 0x9C, CHR 0xA8, CHR 0xE7, CHR 0xAB, CHR 0xAF,
      CHR 0xE7, CHR 0x82, CHR 0xB9] @ '' '' @ [CHR 0x27]
     @ endpoint @
     [CHR 0x27] @ '' '' @ [CHR 0xE4, CHR 0xB8, CHR 0xAD, CHR 0xE4, CHR 0xB8, CHR 0x8D,
      CHR 0xE5, CHR 0xAD, CHR 0x98, CHR 0xE5, CHR 0x9C, CHR 0xA8, CHR 0xE3, CHR 0x80,
      CHR 0x82, CHR 0xE5, CHR 0x8F, CHR 0xAF, CHR 0xE7, CHR 0x94, CHR 0xA8, CHR 0xE7,
      CHR 0x9A, CHR 0x84, CHR 0xE5, CHR 0xB7, CHR 0xA5, CHR 0xE5, CHR 0x85,
      CHR 0xB7] @ '': ''
     @ available_tools"

text \<open>
  Every handler reads the module-level \<^verbatim>\<open>MCP_CONFIGS\<close>. The functions of this section
  give the answer of a handler as a function of the registry it reads, \<open>reg\<close>: a raised
  exception is \<open>Inl\<close>, a returned value \<open>Inr\<close>.
\<close>

text \<open>\<^verbatim>\<open>GET /\<close>\<close>

definition root :: "registry \<Rightarrow> json" where
  "root reg = JObj [
     (''message'', JStr ''Dynamic MCP Demo Server''),
     (''available_endpoints'', JArr (map JStr (dict_keys reg))),
     (''endpoints_info'', JObj (map (\<lambda>(endpoint, config).
        (endpoint, JObj [
           (''server_name'', JStr (ServerInfo.name (server config))),
           (''tools_count'', JInt (int (length (tools config))))])) reg))]"

text \<open>\<^verbatim>\<open>GET /mcp/{endpoint}\<close>\<close>

definition get_mcp_config :: "registry \<Rightarrow> string \<Rightarrow> error + MCPConfig" where
  "get_mcp_config reg endpoint =
     (if \<not> dict_contains reg endpoint then
        (let available = str_join '', '' (dict_keys reg)
         in Inl (HTTPException 404 (endpoint_detail endpoint available)))
      else dict_getitem reg endpoint)"

text \<open>\<^verbatim>\<open>GET /mcp/{endpoint}/server\<close>\<close>

definition get_mcp_server_info :: "registry \<Rightarrow> string \<Rightarrow> error + ServerInfo" where
  "get_mcp_server_info reg endpoint =
     (if \<not> dict_contains reg endpoint then
        (let available = str_join '', '' (dict_keys reg)
         in Inl (HTTPException 404 (endpoint_detail endpoint available)))
      else (case dict_getitem reg endpoint of
              Inl e \<Rightarrow> Inl e
            | Inr config \<Rightarrow> Inr (server config)))"

text \<open>\<^verbatim>\<open>GET /mcp/{endpoint}/tools\<close>\<close>

definition get_mcp_tools :: "registry \<Rightarrow> string \<Rightarrow> error + Tool list" where
  "get_mcp_tools reg endpoint =
     (if \<not> dict_contains reg endpoint then
        (let available = str_join '', '' (dict_keys reg)
         in Inl (HTTPException 404 (endpoint_detail endpoint available)))
      else (case dict_getitem reg endpoint of
              Inl e \<Rightarrow> Inl e
            | Inr config \<Rightarrow> Inr (tools config)))"

text \<open>
  \<^verbatim>\<open>GET /mcp/{endpoint}/tools/{tool_name}\<close>. The source takes
  \<^verbatim>\<open>next((t for t in config.tools if t.name == tool_name), None)\<close>, the first element of
  the list that satisfies the test or \<^verbatim>\<open>None\<close>, which is \<open>find\<close>; a \<^verbatim>\<open>Tool\<close> object is
  always truthy, so \<^verbatim>\<open>not tool\<close> holds exactly for \<^verbatim>\<open>None\<close>.
\<close>

definition get_tool_description :: "registry \<Rightarrow> string \<Rightarrow> string \<Rightarrow> error + Tool" where
  "get_tool_description reg endpoint tool_name =
     (if \<not> dict_contains reg endpoint then
        (let available = str_join '', '' (dict_keys reg)
         in Inl (HTTPException 404 (endpoint_detail endpoint available)))
      else (case dict_getitem reg endpoint of
              Inl e \<Rightarrow> Inl e
            | Inr config \<Rightarrow>
               (let tool = find (\<lambda>t. Tool.name t = tool_name) (tools config)
                in case tool of
                     None \<Rightarrow>
                      (let available_tools = str_join '', '' (map Tool.name (tools config))
                       in Inl (HTTPException 404
                                 (tool_detail tool_name endpoint available_tools)))
                   | Some t \<Rightarrow> Inr t)))"

text \<open>\<^verbatim>\<open>GET /list-endpoints\<close>\<close>

definition list_all_endpoints :: "registry \<Rightarrow> json" where
  "list_all_endpoints reg = JObj [
     (''endpoints'', JArr (map (\<lambda>(endpoint, config). JObj [
        (''endpoint'', JStr endpoint),
        (''server_name'', JStr (ServerInfo.name (server config))),
        (''server_version'', JStr (version (server config))),
        (''server_description'',
           (case ServerInfo.description (server config) of
              None \<Rightarrow> JNull
            | Some d \<Rightarrow> JStr d)),
        (''tools'', JArr (map (\<lambda>tool. JObj [
           (''name'', JStr (Tool.name tool)),
           (''description'', JStr (Tool.description tool))]) (tools config)))]) reg))]"

subsection \<open>The handlers as the process runs them\<close>

text \<open>
  The functions above give what a handler answers from the registry it reads. What running
  a handler does to the process is modelled apart, with the state written out: the state of
  the process is the value of the module-level \<^verbatim>\<open>MCP_CONFIGS\<close>, and an action takes the
  state and gives a result, raised or returned, together with the state it leaves. An
  action may leave any state: nothing in its type keeps the registry in place.
\<close>

type_synonym 'a action = "registry \<Rightarrow> (error + 'a) \<times> registry"

text \<open>
  The statements the handlers are made of: \<^verbatim>\<open>return x\<close>, \<^verbatim>\<open>raise e\<close>, an occurrence of
  the name \<^verbatim>\<open>MCP_CONFIGS\<close> in an expression (a read of the global), and sequencing, where
  an exception of the first part skips the second. A dictionary subscript returns or
  raises \<^verbatim>\<open>KeyError\<close>.
\<close>

definition return_value :: "'a \<Rightarrow> 'a action" where
  "return_value x = (\<lambda>s. (Inr x, s))"

definition raise :: "error \<Rightarrow> 'a action" where
  "raise e = (\<lambda>s. (Inl e, s))"

definition read_MCP_CONFIGS :: "registry action" where
  "read_MCP_CONFIGS = (\<lambda>s. (Inr s, s))"

definition and_then :: "'a action \<Rightarrow> ('a \<Rightarrow> 'b action) \<Rightarrow> 'b action" where
  "and_then m f = (\<lambda>s. case m s of (Inl e, s') \<Rightarrow> (Inl e, s') | (Inr x, s') \<Rightarrow> f x s')"

definition getitem :: "(string \<times> 'v) list \<Rightarrow> string \<Rightarrow> 'v action" where
  "getitem d k = (case dict_getitem d k of Inl e \<Rightarrow> raise e | Inr v \<Rightarrow> return_value v)"

text \<open>
  The six handler bodies, statement by statement; every occurrence of \<^verbatim>\<open>MCP_CONFIGS\<close> in
  the source is one \<open>read_MCP_CONFIGS\<close>. The source has no assignment, no \<^verbatim>\<open>global\<close>
  statement and no call of a mutating method, so no other statement occurs.
\<close>

definition root_handler :: "json action" where
  "root_handler =
     and_then read_MCP_CONFIGS (\<lambda>cfgs_keys.
     and_then read_MCP_CONFIGS (\<lambda>cfgs_items.
       return_value (JObj [
         (''message'', JStr ''Dynamic MCP Demo Server''),
         (''available_endpoints'', JArr (map JStr (dict_keys cfgs_keys))),
         (''endpoints_info'', JObj (map (\<lambda>(endpoint, config).
            (endpoint, JObj [
               (''server_name'', JStr (ServerInfo.name (server config))),
               (''tools_count'', JInt (int (length (tools config))))])) cfgs_items))])))"

definition raise_unknown_endpoint :: "string \<Rightarrow> 'a action" where
  "raise_unknown_endpoint endpoint =
     and_then read_MCP_CONFIGS (\<lambda>cfgs.
       (let available = str_join '', '' (dict_keys cfgs)
        in raise (HTTPException 404 (endpoint_detail endpoint available))))"

definition get_mcp_config_handler :: "string \<Rightarrow> MCPConfig action" where
  "get_mcp_config_handler endpoint =
     and_then read_MCP_CONFIGS (\<lambda>cfgs.
       if \<not> dict_contains cfgs endpoint then raise_unknown_endpoint endpoint
       else and_then read_MCP_CONFIGS (\<lambda>cfgs.
              and_then (getitem cfgs endpoint) (\<lambda>config. return_value config)))"

definition get_mcp_server_info_handler :: "string \<Rightarrow> ServerInfo action" where
  "get_mcp_server_info_handler endpoint =
     and_then read_MCP_CONFIGS (\<lambda>cfgs.
       if \<not> dict_contains cfgs endpoint then raise_unknown_endpoint endpoint
       else and_then read_MCP_CONFIGS (\<lambda>cfgs.
              and_then (getitem cfgs endpoint) (\<lambda>config. return_value (server config))))"

definition get_mcp_tools_handler :: "string \<Rightarrow> Tool list action" where
  "get_mcp_tools_handler endpoint =
     and_then read_MCP_CONFIGS (\<lambda>cfgs.
       if \<not> dict_contains cfgs endpoint then raise_unknown_endpoint endpoint
       else and_then read_MCP_CONFIGS (\<lambda>cfgs.
              and_then (getitem cfgs endpoint) (\<lambda>config. return_value (tools config))))"

definition get_tool_description_handler :: "string \<Rightarrow> string \<Rightarrow> Tool action" where
  "get_tool_description_handler endpoint tool_name =
     and_then read_MCP_CONFIGS (\<lambda>cfgs.
       if \<not> dict_contains cfgs endpoint then raise_unknown_endpoint endpoint
       else and_then read_MCP_CONFIGS (\<lambda>cfgs.
              and_then (getitem cfgs endpoint) (\<lambda>config.
                (let tool = find (\<lambda>t. Tool.name t = tool_name) (tools config)
                 in case tool of
                      None \<Rightarrow>
                       (let available_tools = str_join '', '' (map Tool.name (tools config))
                        in raise (HTTPException 404
                                    (tool_detail tool_name endpoint available_tools)))
                    | Some t \<Rightarrow> return_value t))))"

definition list_all_endpoints_handler :: "json action" where
  "list_all_endpoints_handler =
     and_then read_MCP_CONFIGS (\<lambda>cfgs.
       return_value (JObj [
         (''endpoints'', JArr (map (\<lambda>(endpoint, config). JObj [
            (''endpoint'', JStr endpoint),
            (''server_name'', JStr (ServerInfo.name (server config))),
            (''server_version'', JStr (version (server config))),
            (''server_description'',
               (case ServerInfo.description (server config) of
                  None \<Rightarrow> JNull
                | Some d \<Rightarrow> JStr d)),
            (''tools'', JArr (map (\<lambda>tool. JObj [
               (''name'', JStr (Tool.name tool)),
               (''description'', JStr (Tool.description tool))]) (tools config)))]) cfgs))]))"

subsection \<open>The route table\<close>

text \<open>
  The six \<^verbatim>\<open>@app.get\<close> routes, as a request type. Serving a request runs the handler of
  its route on the state of the process, and gives the response and the state the handler
  leaves.
\<close>

datatype request =
    GET_root
  | GET_mcp string
  | GET_mcp_server string
  | GET_mcp_tools string
  | GET_mcp_tool string string
  | GET_list_endpoints

datatype response =
    Dict_response json
  | MCPConfig_response MCPConfig
  | ServerInfo_response ServerInfo
  | Tools_response "Tool list"
  | Tool_response Tool

definition respond :: "('a \<Rightarrow> response) \<Rightarrow> 'a action \<Rightarrow> response action" where
  "respond f m = and_then m (\<lambda>x. return_value (f x))"

definition serve :: "registry \<Rightarrow> request \<Rightarrow> (error + response) \<times> registry" where
  "serve reg req =
     (case req of
        GET_root \<Rightarrow> respond Dict_response root_handler reg
      | GET_mcp endpoint \<Rightarrow> respond MCPConfig_response (get_mcp_config_handler endpoint) reg
      | GET_mcp_server endpoint \<Rightarrow>
          respond ServerInfo_response (get_mcp_server_info_handler endpoint) reg
      | GET_mcp_tools endpoint \<Rightarrow>
          respond Tools_response (get_mcp_tools_handler endpoint) reg
      | GET_mcp_tool endpoint tool_name \<Rightarrow>
          respond Tool_response (get_tool_description_handler endpoint tool_name) reg
      | GET_list_endpoints \<Rightarrow> respond Dict_response list_all_endpoints_handler reg)"

text \<open>Serving a sequence of requests, one after the other, collecting the responses.\<close>

fun serve_all :: "registry \<Rightarrow> request list \<Rightarrow> (error + response) list \<times> registry" where
  "serve_all reg [] = ([], reg)"
| "serve_all reg (req # reqs) =
     (case serve reg req of (r, reg') \<Rightarrow>
        (case serve_all reg' reqs of (rs, reg'') \<Rightarrow> (r # rs, reg'')))"

text \<open>The invariant of the data model: tool names are unique within each configuration.\<close>

definition tool_names_unique :: "registry \<Rightarrow> bool" where
  "tool_names_unique reg = list_all (\<lambda>(endpoint, config). distinct (map Tool.name (tools config))) reg"

section \<open>Properties\<close>

subsection \<open>Auxiliary facts\<close>

lemma dict_contains_map_of: "dict_contains d k \<longleftrightarrow> map_of d k \<noteq> None"
  by (simp add: dict_contains_def dict_keys_def map_of_eq_None_iff)

lemma dict_getitem_contains:
  "dict_contains d k \<Longrightarrow> \<exists>v. map_of d k = Some v \<and> dict_getitem d k = Inr v"
  by (auto simp: dict_contains_map_of dict_getitem_def)

lemma find_first_index:
  "i < length xs \<Longrightarrow> P (xs ! i) \<Longrightarrow> \<forall>j<i. \<not> P (xs ! j) \<Longrightarrow> find P xs = Some (xs ! i)"
proof (induction xs arbitrary: i)
  case Nil
  then show ?case by simp
next
  case (Cons x xs)
  show ?case
  proof (cases i)
    case 0
    with Cons.prems show ?thesis by simp
  next
    case (Suc m)
    with Cons.prems have "\<not> P x" by auto
    moreover from Suc Cons.prems have "find P xs = Some (xs ! m)"
      by (intro Cons.IH) auto
    ultimately show ?thesis using Suc by simp
  qed
qed

lemma find_distinct_name:
  "distinct (map f xs) \<Longrightarrow> x \<in> set xs \<Longrightarrow> find (\<lambda>y. f y = f x) xs = Some x"
  by (induction xs) auto



lemma MCP_CONFIGS_keys: "dict_keys MCP_CONFIGS = [''weather'', ''database'', ''file'', ''api'']"
  by (simp add: dict_keys_def MCP_CONFIGS_def)

lemma MCP_CONFIGS_contains:
  "dict_contains MCP_CONFIGS k \<longleftrightarrow> k = ''weather'' \<or> k = ''database'' \<or> k = ''file'' \<or> k = ''api''"
  by (auto simp: dict_contains_def MCP_CONFIGS_keys)

lemma MCP_CONFIGS_lookup:
  "map_of MCP_CONFIGS ''weather'' = Some weather_config"
  "map_of MCP_CONFIGS ''database'' = Some database_config"
  "map_of MCP_CONFIGS ''file'' = Some file_config"
  "map_of MCP_CONFIGS ''api'' = Some api_config"
  by (simp_all add: MCP_CONFIGS_def)

lemma config_tools:
  "tools weather_config = [get_weather_tool, get_forecast_tool]"
  "tools database_config = [query_database_tool, execute_command_tool, list_tables_tool]"
  "tools file_config = [read_file_tool, write_file_tool, list_directory_tool]"
  "tools api_config = [http_get_tool, http_post_tool]"
  by (simp_all add: weather_config_def database_config_def file_config_def api_config_def)

lemma config_server_name:
  "ServerInfo.name (server weather_config) = ''Weather MCP Server''"
  "ServerInfo.name (server database_config) = ''Database MCP Server''"
  "ServerInfo.name (server file_config) = ''File System MCP Server''"
  "ServerInfo.name (server api_config) = ''API Client MCP Server''"
  by (simp_all add: weather_config_def database_config_def file_config_def api_config_def)

lemma tool_names:
  "Tool.name get_weather_tool = ''get_weather''"
  "Tool.name get_forecast_tool = ''get_forecast''"
  "Tool.name query_database_tool = ''query_database''"
  "Tool.name execute_command_tool = ''execute_command''"
  "Tool.name list_tables_tool = ''list_tables''"
  "Tool.name read_file_tool = ''read_file''"
  "Tool.name write_file_tool = ''write_file''"
  "Tool.name list_directory_tool = ''list_directory''"
  "Tool.name http_get_tool = ''http_get''"
  "Tool.name http_post_tool = ''http_post''"
  by (simp_all add: get_weather_tool_def get_forecast_tool_def query_database_tool_def
      execute_command_tool_def list_tables_tool_def read_file_tool_def write_file_tool_def
      list_directory_tool_def http_get_tool_def http_post_tool_def)

lemma MCP_CONFIGS_unique: "tool_names_unique MCP_CONFIGS"
  by (simp add: tool_names_unique_def MCP_CONFIGS_def config_tools tool_names)

lemma root_handler_run: "root_handler reg = (Inr (root reg), reg)"
  by (simp add: root_handler_def root_def and_then_def read_MCP_CONFIGS_def return_value_def)

lemma list_all_endpoints_handler_run:
  "list_all_endpoints_handler reg = (Inr (list_all_endpoints reg), reg)"
  by (simp add: list_all_endpoints_handler_def list_all_endpoints_def and_then_def
      read_MCP_CONFIGS_def return_value_def)

lemma raise_unknown_endpoint_run:
  "raise_unknown_endpoint endpoint reg
     = (Inl (HTTPException 404 (endpoint_detail endpoint (str_join '', '' (dict_keys reg)))), reg)"
  by (simp add: raise_unknown_endpoint_def and_then_def read_MCP_CONFIGS_def raise_def)

lemma getitem_run: "getitem d k reg = (dict_getitem d k, reg)"
  by (simp add: getitem_def raise_def return_value_def split: sum.splits)

lemma get_mcp_config_handler_run:
  "get_mcp_config_handler endpoint reg = (get_mcp_config reg endpoint, reg)"
  by (simp add: get_mcp_config_handler_def get_mcp_config_def and_then_def
      read_MCP_CONFIGS_def return_value_def raise_unknown_endpoint_run getitem_run
      split: sum.splits)

lemma get_mcp_server_info_handler_run:
  "get_mcp_server_info_handler endpoint reg = (get_mcp_server_info reg endpoint, reg)"
  by (simp add: get_mcp_server_info_handler_def get_mcp_server_info_def and_then_def
      read_MCP_CONFIGS_def return_value_def raise_unknown_endpoint_run getitem_run
      split: sum.splits)

lemma get_mcp_tools_handler_run:
  "get_mcp_tools_handler endpoint reg = (get_mcp_tools reg endpoint, reg)"
  by (simp add: get_mcp_tools_handler_def get_mcp_tools_def and_then_def
      read_MCP_CONFIGS_def return_value_def raise_unknown_endpoint_run getitem_run
      split: sum.splits)

lemma get_tool_description_handler_run:
  "get_tool_description_handler endpoint tool_name reg
     = (get_tool_description reg endpoint tool_name, reg)"
  by (simp add: get_tool_description_handler_def get_tool_description_def and_then_def
      read_MCP_CONFIGS_def return_value_def raise_def raise_unknown_endpoint_run getitem_run
      split: sum.splits option.splits)

lemma respond_run: "m reg = (r, reg') \<Longrightarrow> respond f m reg = (map_sum id f r, reg')"
  by (cases r) (simp_all add: respond_def and_then_def return_value_def)

lemmas handler_runs =
  root_handler_run list_all_endpoints_handler_run get_mcp_config_handler_run
  get_mcp_server_info_handler_run get_mcp_tools_handler_run get_tool_description_handler_run

lemma serve_frame: "snd (serve reg req) = reg"
  by (cases req) (simp_all add: serve_def handler_runs [THEN respond_run])

lemma action_can_write: "\<exists>(h :: unit action) reg. snd (h reg) \<noteq> reg"
  by (rule exI [of _ "\<lambda>s. (Inr (), [])"], rule exI [of _ MCP_CONFIGS])
    (simp add: MCP_CONFIGS_def)

lemma serve_all_frame: "snd (serve_all reg reqs) = reg"
proof (induction reqs arbitrary: reg)
  case Nil
  show ?case by simp
next
  case (Cons req reqs)
  obtain r reg' where s: "serve reg req = (r, reg')" by (cases "serve reg req")
  with serve_frame [of reg req] have r: "reg' = reg" by simp
  obtain rs reg'' where t: "serve_all reg reqs = (rs, reg'')" by (cases "serve_all reg reqs")
  with Cons.IH [of reg] have "reg'' = reg" by simp
  with s r t show ?case by simp
qed

lemma map_of_endpoints_info:
  "map_of (map (\<lambda>(endpoint, config). (endpoint, f config)) reg) k = map_option f (map_of reg k)"
  by (induction reg) auto

subsection \<open>Looking up one tool\<close>

text \<open>
  C1. For every endpoint key and every tool name: when the key is not in the registry,
  \<open>get_tool_description\<close> raises a 404; when the key is in the registry and no tool of its
  configuration has that name, it raises a 404; and when some tool has that name, it
  returns the first one in the order of the tool list, that is the tool at the least index
  whose name is the requested one.
\<close>

theorem getTool_first_match:
  "(\<not> dict_contains reg k \<longrightarrow>
      (\<exists>m. get_tool_description reg k n = Inl (HTTPException 404 m)))
   \<and> (\<forall>c. map_of reg k = Some c \<longrightarrow>
        ((\<forall>t\<in>set (tools c). Tool.name t \<noteq> n) \<longrightarrow>
           (\<exists>m. get_tool_description reg k n = Inl (HTTPException 404 m)))
        \<and> (\<forall>i<length (tools c).
             Tool.name (tools c ! i) = n \<and> (\<forall>j<i. Tool.name (tools c ! j) \<noteq> n) \<longrightarrow>
               get_tool_description reg k n = Inr (tools c ! i)))"
proof (intro conjI allI impI)
  assume "\<not> dict_contains reg k"
  then show "\<exists>m. get_tool_description reg k n = Inl (HTTPException 404 m)"
    by (simp add: get_tool_description_def)
next
  fix c
  assume c: "map_of reg k = Some c" and none: "\<forall>t\<in>set (tools c). Tool.name t \<noteq> n"
  from none have "find (\<lambda>t. Tool.name t = n) (tools c) = None"
    by (simp add: find_None_iff)
  with c show "\<exists>m. get_tool_description reg k n = Inl (HTTPException 404 m)"
    by (simp add: get_tool_description_def dict_contains_map_of dict_getitem_def)
next
  fix c i
  assume c: "map_of reg k = Some c" and i: "i < length (tools c)"
    and hit: "Tool.name (tools c ! i) = n \<and> (\<forall>j<i. Tool.name (tools c ! j) \<noteq> n)"
  from i hit have "find (\<lambda>t. Tool.name t = n) (tools c) = Some (tools c ! i)"
    by (intro find_first_index) auto
  with c show "get_tool_description reg k n = Inr (tools c ! i)"
    by (simp add: get_tool_description_def dict_contains_map_of dict_getitem_def)
qed

theorem getTool_first_match_witness:
  "(\<exists>m. get_tool_description MCP_CONFIGS ''nope'' ''get_weather'' = Inl (HTTPException 404 m))
   \<and> (\<exists>m. get_tool_description MCP_CONFIGS ''weather'' ''nonexistent_tool''
            = Inl (HTTPException 404 m))
   \<and> get_tool_description MCP_CONFIGS ''weather'' ''get_forecast'' = Inr get_forecast_tool
   \<and> get_tool_description
         [(''twice'', \<lparr>server = server weather_config,
                        tools = [get_forecast_tool,
                                 get_weather_tool,
                                 get_weather_tool\<lparr>Tool.description := ''second''\<rparr>]\<rparr>)]
         ''twice'' ''get_weather'' = Inr get_weather_tool"
proof (intro conjI)
  show "\<exists>m. get_tool_description MCP_CONFIGS ''nope'' ''get_weather'' = Inl (HTTPException 404 m)"
    using getTool_first_match [of MCP_CONFIGS "''nope''" "''get_weather''"]
    by (simp add: MCP_CONFIGS_contains)
  show "\<exists>m. get_tool_description MCP_CONFIGS ''weather'' ''nonexistent_tool''
            = Inl (HTTPException 404 m)"
    using getTool_first_match [of MCP_CONFIGS "''weather''" "''nonexistent_tool''"]
    by (simp add: MCP_CONFIGS_lookup config_tools tool_names)
  show "get_tool_description MCP_CONFIGS ''weather'' ''get_forecast'' = Inr get_forecast_tool"
    using getTool_first_match [of MCP_CONFIGS "''weather''" "''get_forecast''"]
    by (simp add: MCP_CONFIGS_lookup config_tools tool_names All_less_Suc2)
  show "get_tool_description
         [(''twice'', \<lparr>server = server weather_config,
                        tools = [get_forecast_tool,
                                 get_weather_tool,
                                 get_weather_tool\<lparr>Tool.description := ''second''\<rparr>]\<rparr>)]
         ''twice'' ''get_weather'' = Inr get_weather_tool"
    using getTool_first_match [of "[(''twice'', \<lparr>server = server weather_config,
                        tools = [get_forecast_tool,
                                 get_weather_tool,
                                 get_weather_tool\<lparr>Tool.description := ''second''\<rparr>]\<rparr>)]"
          "''twice''" "''get_weather''"]
    by (simp add: tool_names All_less_Suc2)
qed

subsection \<open>Unknown keys\<close>



subsection \<open>Registered keys\<close>

text \<open>
  C3. For every key of \<open>MCP_CONFIGS\<close>, \<open>get_mcp_config\<close> returns a configuration, and
  the name of its server is the one the dictionary literal gives to that key: the four
  seeded names are listed in the statement.
\<close>

theorem registered_key_configuration:
  assumes "dict_contains MCP_CONFIGS k"
  shows "\<exists>c. get_mcp_config MCP_CONFIGS k = Inr c
           \<and> map_of [(''weather'', ''Weather MCP Server''),
                      (''database'', ''Database MCP Server''),
                      (''file'', ''File System MCP Server''),
                      (''api'', ''API Client MCP Server'')] k
               = Some (ServerInfo.name (server c))"
proof -
  from assms consider "k = ''weather''" | "k = ''database''" | "k = ''file''" | "k = ''api''"
    by (auto simp: MCP_CONFIGS_contains)
  then show ?thesis
  proof cases
    case 1
    then show ?thesis
      by (simp add: get_mcp_config_def MCP_CONFIGS_contains dict_getitem_def
          MCP_CONFIGS_lookup config_server_name)
  next
    case 2
    then show ?thesis
      by (simp add: get_mcp_config_def MCP_CONFIGS_contains dict_getitem_def
          MCP_CONFIGS_lookup config_server_name)
  next
    case 3
    then show ?thesis
      by (simp add: get_mcp_config_def MCP_CONFIGS_contains dict_getitem_def
          MCP_CONFIGS_lookup config_server_name)
  next
    case 4
    then show ?thesis
      by (simp add: get_mcp_config_def MCP_CONFIGS_contains dict_getitem_def
          MCP_CONFIGS_lookup config_server_name)
  qed
qed

theorem registered_key_configuration_witness:
  "dict_contains MCP_CONFIGS ''database''
   \<and> (\<exists>c. get_mcp_config MCP_CONFIGS ''database'' = Inr c
            \<and> ServerInfo.name (server c) = ''Database MCP Server'')"
proof -
  have h: "dict_contains MCP_CONFIGS ''database''"
    by (simp add: MCP_CONFIGS_contains)
  show ?thesis
    using h registered_key_configuration [OF h] by auto
qed

text \<open>
  C4. For every key of the registry, the \<open>tools_count\<close> that \<open>root\<close> reports under
  \<open>endpoints_info\<close> for that key is the length of the list that \<open>get_mcp_tools\<close> returns
  for it.
\<close>

theorem root_tools_count:
  assumes "dict_contains reg k"
  shows "\<exists>ts. get_mcp_tools reg k = Inr ts
           \<and> Option.bind (Option.bind (json_get (root reg) ''endpoints_info'')
                           (\<lambda>info. json_get info k))
                (\<lambda>entry. json_get entry ''tools_count'')
               = Some (JInt (int (length ts)))"
proof -
  from assms obtain c where c: "map_of reg k = Some c" "dict_getitem reg k = Inr c"
    using dict_getitem_contains by blast
  with assms have "get_mcp_tools reg k = Inr (tools c)"
    by (simp add: get_mcp_tools_def)
  moreover from c have "Option.bind (Option.bind (json_get (root reg) ''endpoints_info'')
                           (\<lambda>info. json_get info k))
                (\<lambda>entry. json_get entry ''tools_count'')
               = Some (JInt (int (length (tools c))))"
    by (simp add: root_def map_of_endpoints_info)
  ultimately show ?thesis by simp
qed

theorem root_tools_count_witness:
  "dict_contains MCP_CONFIGS ''file''
   \<and> get_mcp_tools MCP_CONFIGS ''file'' = Inr [read_file_tool, write_file_tool, list_directory_tool]
   \<and> Option.bind (Option.bind (json_get (root MCP_CONFIGS) ''endpoints_info'')
                           (\<lambda>info. json_get info ''file''))
                (\<lambda>entry. json_get entry ''tools_count'')
       = Some (JInt 3)"
proof -
  have h: "dict_contains MCP_CONFIGS ''file''"
    by (simp add: MCP_CONFIGS_contains)
  have t: "get_mcp_tools MCP_CONFIGS ''file'' = Inr [read_file_tool, write_file_tool, list_directory_tool]"
    by (simp add: get_mcp_tools_def h dict_getitem_def MCP_CONFIGS_lookup config_tools)
  show ?thesis
    using h t root_tools_count [OF h] by simp
qed

subsection \<open>The seeded tools\<close>

text \<open>
  C5. \<open>get_tool_description\<close> at \<open>database\<close> and \<open>list_tables\<close> returns a tool, and the
  \<open>required\<close> entry of its input schema is the empty list.
\<close>

theorem list_tables_no_required:
  "\<exists>t. get_tool_description MCP_CONFIGS ''database'' ''list_tables'' = Inr t
       \<and> map_of (inputSchema t) ''required'' = Some (JArr [])"
proof -
  have "get_tool_description MCP_CONFIGS ''database'' ''list_tables'' = Inr list_tables_tool"
    by (simp add: get_tool_description_def MCP_CONFIGS_contains dict_getitem_def
        MCP_CONFIGS_lookup config_tools tool_names)
  moreover have "map_of (inputSchema list_tables_tool) ''required'' = Some (JArr [])"
    by (simp add: list_tables_tool_def)
  ultimately show ?thesis by simp
qed

text \<open>
  C6. \<open>get_tool_description\<close> at \<open>file\<close> and \<open>write_file\<close> returns a tool, and the
  \<open>required\<close> entry of its input schema is the list of \<open>path\<close> and \<open>content\<close>, in that
  order.
\<close>

theorem write_file_required:
  "\<exists>t. get_tool_description MCP_CONFIGS ''file'' ''write_file'' = Inr t
       \<and> map_of (inputSchema t) ''required'' = Some (JArr [JStr ''path'', JStr ''content''])"
proof -
  have "get_tool_description MCP_CONFIGS ''file'' ''write_file'' = Inr write_file_tool"
    by (simp add: get_tool_description_def MCP_CONFIGS_contains dict_getitem_def
        MCP_CONFIGS_lookup config_tools tool_names)
  moreover have "map_of (inputSchema write_file_tool) ''required''
                   = Some (JArr [JStr ''path'', JStr ''content''])"
    by (simp add: write_file_tool_def)
  ultimately show ?thesis by simp
qed


subsection \<open>The registry is only read\<close>

text \<open>
  C8. Within each configuration of \<open>MCP_CONFIGS\<close> the tool names are pairwise distinct;
  serving a request keeps that property of any registry, and so it holds after every
  sequence of requests served from \<open>MCP_CONFIGS\<close>.
\<close>

theorem tool_names_unique_invariant:
  "tool_names_unique MCP_CONFIGS
   \<and> (\<forall>reg req. tool_names_unique reg \<longrightarrow> tool_names_unique (snd (serve reg req)))
   \<and> (\<forall>reqs. tool_names_unique (snd (serve_all MCP_CONFIGS reqs)))"
  by (simp add: MCP_CONFIGS_unique serve_frame serve_all_frame)

theorem tool_names_unique_invariant_witness:
  "tool_names_unique MCP_CONFIGS
   \<and> tool_names_unique (snd (serve MCP_CONFIGS (GET_mcp_tool ''weather'' ''get_weather'')))
   \<and> tool_names_unique (snd (serve_all MCP_CONFIGS [GET_root, GET_mcp ''mail'']))"
  using tool_names_unique_invariant by blast

text \<open>
  C9. Running any of the six handlers on any state of the process, whether it returns or
  raises a 404, leaves the registry as it was; so does serving any request through the
  route table, and any sequence of requests.
\<close>

theorem queries_leave_registry:
  "snd (root_handler reg) = reg
   \<and> snd (get_mcp_config_handler endpoint reg) = reg
   \<and> snd (get_mcp_server_info_handler endpoint reg) = reg
   \<and> snd (get_mcp_tools_handler endpoint reg) = reg
   \<and> snd (get_tool_description_handler endpoint tool_name reg) = reg
   \<and> snd (list_all_endpoints_handler reg) = reg
   \<and> snd (serve reg req) = reg
   \<and> snd (serve_all reg reqs) = reg"
  by (simp add: handler_runs serve_frame serve_all_frame)

subsection \<open>Listing the tools and looking one up\<close>

text \<open>
  C10. For every key of \<open>MCP_CONFIGS\<close> and every tool \<open>t\<close> in the list that
  \<open>get_mcp_tools\<close> returns for it, \<open>get_tool_description\<close> at that key and the name of
  \<open>t\<close> returns \<open>t\<close> itself.
\<close>

theorem getTools_getTool_roundtrip:
  assumes "dict_contains MCP_CONFIGS k"
    and "get_mcp_tools MCP_CONFIGS k = Inr ts"
    and "t \<in> set ts"
  shows "get_tool_description MCP_CONFIGS k (Tool.name t) = Inr t"
proof -
  from assms(1) obtain c where c: "map_of MCP_CONFIGS k = Some c" "dict_getitem MCP_CONFIGS k = Inr c"
    using dict_getitem_contains by blast
  with assms(1,2) have ts: "ts = tools c"
    by (simp add: get_mcp_tools_def)
  from c(1) have "(k, c) \<in> set MCP_CONFIGS"
    by (rule map_of_SomeD)
  with MCP_CONFIGS_unique have "distinct (map Tool.name (tools c))"
    by (auto simp: tool_names_unique_def list_all_iff)
  with assms(3) ts have "find (\<lambda>u. Tool.name u = Tool.name t) (tools c) = Some t"
    by (simp add: find_distinct_name)
  with assms(1) c show ?thesis
    by (simp add: get_tool_description_def)
qed

theorem getTools_getTool_roundtrip_witness:
  "dict_contains MCP_CONFIGS ''api''
   \<and> get_mcp_tools MCP_CONFIGS ''api'' = Inr [http_get_tool, http_post_tool]
   \<and> http_post_tool \<in> set [http_get_tool, http_post_tool]
   \<and> get_tool_description MCP_CONFIGS ''api'' ''http_post'' = Inr http_post_tool"
proof -
  have h: "dict_contains MCP_CONFIGS ''api''"
    by (simp add: MCP_CONFIGS_contains)
  have t: "get_mcp_tools MCP_CONFIGS ''api'' = Inr [http_get_tool, http_post_tool]"
    by (simp add: get_mcp_tools_def h dict_getitem_def MCP_CONFIGS_lookup config_tools)
  have m: "http_post_tool \<in> set [http_get_tool, http_post_tool]"
    by simp
  show ?thesis
    using h t m getTools_getTool_roundtrip [OF h t m] by (simp add: tool_names)
qed

end
